theory Spec2Isabelle
  imports Complex_Main
begin

section \<open>Data model (src/types/tron.ts)\<close>

text \<open>
  Amounts are balances in sun, the ledger's integer unit; the source holds them in
  JavaScript numbers (doubles) and they are modelled as \<open>int\<close>. The subtraction, the
  maximum and the minimum of the source are exact, and so equal to those of \<open>int\<close>, as
  long as the operands and the difference are safe integers (of magnitude at most
  \<open>2^53 - 1\<close>, see \<open>safe_integer\<close>); beyond that range the source rounds and the model does
  not follow it. Wall-clock values (the \<open>id\<close> and
  \<open>timestamp\<close> of a log entry, the \<open>timestamp\<close> of a step) come from the system clock and
  are left out of the records.
\<close>

datatype level = INFO | SUCCESS | WARNING | ERROR | DETECTION | SIGNATURE | BROADCAST | BALANCE

text \<open>
  A text built by a template literal is the list of its pieces: \<open>Txt\<close> a literal part,
  \<open>Num n\<close> an interpolated integer, \<open>Sun n\<close> the text \<open>tronWeb.fromSun(n)\<close>, and \<open>Quot a b\<close>
  the JavaScript number \<open>a / b\<close>. The log symbols (emoji) of the source's texts are left
  out.
\<close>

datatype piece = Txt string | Num int | Sun int | Quot nat nat

type_synonym pieces = "piece list"

text \<open>
  The \<open>details\<close> map of a log entry is an association list in the source's key order. The
  model keeps the keys that carry an amount, a count, an index or an error message; keys
  whose values are constant texts, addresses, transaction ids or links are left out.
\<close>

record LogEntry =
  level :: level
  message :: pieces
  details :: "(string \<times> pieces) list"

datatype step_status = pending | active | completed | error

text \<open>The field \<open>id\<close> of the source is \<open>step_id\<close> here, and \<open>details\<close> is \<open>step_details\<close>.\<close>

record ForwardingStep =
  step_id :: string
  label :: string
  status :: step_status
  step_details :: "pieces option"

record MultisigStatus =
  isConfigured :: bool
  threshold :: int
  keyCount :: nat
  hasReceivingKey :: bool
  hasApprovingKey :: bool

text \<open>
  \<open>ForwardingConfig\<close>: \<open>feeReserve\<close> is the value \<open>tronWeb.toSun(config.feeReserve)\<close> that
  the pipeline computes with, in sun. The credential, the endpoint and the API key play no
  part in the control logic.
\<close>

record ForwardingConfig =
  receivingAddress :: string
  destinationAddress :: string
  feeReserve :: int
  pollInterval :: nat

text \<open>
  What the callbacks of the hook read besides its state: \<open>tronWebRef.current\<close> (\<open>None\<close>
  until the client is initialised) and the values of \<open>useTronLink\<close>. \<open>tronLinkWeb\<close> says
  whether the wallet client is present; an empty \<open>approvingAddress\<close> is the source's falsy
  address.
\<close>

record connections =
  tronWebRef :: "ForwardingConfig option"
  isConnected :: bool
  tronLinkWeb :: bool
  approvingAddress :: string

definition maxRetries :: nat where
  "maxRetries = 3"

definition retryDelay :: nat where
  "retryDelay = 5000"

section \<open>Activity log (addLog)\<close>

text \<open>
  \<open>setLogs(prev => [logEntry, ...prev].slice(0, 100))\<close>: the new entry goes to the front and
  the list is cut to its first 100 elements. The notification that \<open>addLog\<close> also raises for
  the levels ERROR, SUCCESS and DETECTION is shown by a collaborator and is not modelled.
\<close>

definition addLog :: "level \<Rightarrow> pieces \<Rightarrow> (string \<times> pieces) list \<Rightarrow> LogEntry list \<Rightarrow> LogEntry list" where
  "addLog lv msg ds prev = take 100 (\<lparr>level = lv, message = msg, details = ds\<rparr> # prev)"

text \<open>\<open>clearLogs\<close>: \<open>setLogs([])\<close>, then one entry is appended.\<close>

definition clearLogs :: "LogEntry list \<Rightarrow> LogEntry list" where
  "clearLogs prev = addLog INFO [Txt ''Log history cleared''] [] []"

text \<open>The log after a sequence of appends, the first of the list appended first.\<close>

fun appends :: "(level \<times> pieces \<times> (string \<times> pieces) list) list \<Rightarrow> LogEntry list \<Rightarrow> LogEntry list" where
  "appends [] prev = prev"
| "appends ((lv, msg, ds) # rest) prev = appends rest (addLog lv msg ds prev)"

section \<open>Effects and hook state (src/hooks/useForwarder.ts)\<close>

text \<open>
  What a callback of the hook does, in the order in which it does it: the state setters it
  calls, the log entries it appends, the ledger and signer calls it issues, the timers it
  sets and the delays it awaits. \<open>UpdateStep\<close> and \<open>FailActiveSteps\<close> are the two functional
  updates of \<open>currentSteps\<close> (lines 201-207 and 404-406); \<open>ScheduleForward a\<close> is
  \<open>setTimeout(() => forwardWithMultisig(a), 2000)\<close> (line 461).
\<close>

datatype effect =
    Log level pieces "(string \<times> pieces) list"
  | SetReceivingBalance int
  | SetLastBalance "int option"
  | SetMultisigStatus MultisigStatus
  | SetCurrentSteps "ForwardingStep list"
  | UpdateStep string step_status "pieces option"
  | FailActiveSteps string
  | SetIsRunning bool
  | Delay nat
  | SendTrx string int string
  | GetAccount string
  | MultiSign nat
  | SignTransaction
  | SendRawTransaction
  | ScheduleForward int

text \<open>An awaited call of a collaborator either throws (with the error's message) or returns.\<close>

datatype 'a resp = Throws string | Returns 'a

definition createForwardingSteps :: "ForwardingStep list" where
  "createForwardingSteps =
    [\<lparr>step_id = ''detect'', label = ''Payment Detected'', status = pending, step_details = None\<rparr>,
     \<lparr>step_id = ''create'', label = ''Transaction Created'', status = pending, step_details = None\<rparr>,
     \<lparr>step_id = ''sign1'', label = ''Signed by Receiving'', status = pending, step_details = None\<rparr>,
     \<lparr>step_id = ''sign2'', label = ''Signed by Approving'', status = pending, step_details = None\<rparr>,
     \<lparr>step_id = ''validate'', label = ''Multisig Validated'', status = pending, step_details = None\<rparr>,
     \<lparr>step_id = ''broadcast'', label = ''Broadcasted'', status = pending, step_details = None\<rparr>,
     \<lparr>step_id = ''confirm'', label = ''Confirmed'', status = pending, step_details = None\<rparr>]"

definition updateStep :: "string \<Rightarrow> step_status \<Rightarrow> pieces option \<Rightarrow> ForwardingStep list \<Rightarrow> ForwardingStep list" where
  "updateStep stepId st d prev =
     map (\<lambda>step. if step_id step = stepId then step\<lparr>status := st, step_details := d\<rparr> else step) prev"

definition failActiveSteps :: "string \<Rightarrow> ForwardingStep list \<Rightarrow> ForwardingStep list" where
  "failActiveSteps msg prev =
     map (\<lambda>step. if status step = active then step\<lparr>status := error, step_details := Some [Txt msg]\<rparr> else step) prev"

text \<open>
  The state of one instance of the hook. The first six fields are its React state, the next
  two its refs. \<open>intervalRef\<close> holds the running timer, if any; the timer is identified by
  the value of \<open>lastBalance\<close> that its callback closed over (see the section on
  monitoring). \<open>timers\<close> are the calls \<open>forwardWithMultisig(a)\<close> that \<open>setTimeout\<close> has
  scheduled and not yet made, \<open>activeRuns\<close> the calls that were made and have not returned.
\<close>

record forwarder =
  isRunning :: bool
  receivingBalance :: int
  lastBalance :: "int option"
  logs :: "LogEntry list"
  currentSteps :: "ForwardingStep list"
  multisigStatus :: MultisigStatus
  heartbeatCount :: nat
  intervalRef :: "int option option"
  timers :: "int list"
  activeRuns :: "int list"

fun apply_effect :: "effect \<Rightarrow> forwarder \<Rightarrow> forwarder" where
  "apply_effect (Log lv msg ds) s = s\<lparr>logs := addLog lv msg ds (logs s)\<rparr>"
| "apply_effect (SetReceivingBalance b) s = s\<lparr>receivingBalance := b\<rparr>"
| "apply_effect (SetLastBalance b) s = s\<lparr>lastBalance := b\<rparr>"
| "apply_effect (SetMultisigStatus m) s = s\<lparr>multisigStatus := m\<rparr>"
| "apply_effect (SetCurrentSteps steps) s = s\<lparr>currentSteps := steps\<rparr>"
| "apply_effect (UpdateStep stepId st d) s = s\<lparr>currentSteps := updateStep stepId st d (currentSteps s)\<rparr>"
| "apply_effect (FailActiveSteps msg) s = s\<lparr>currentSteps := failActiveSteps msg (currentSteps s)\<rparr>"
| "apply_effect (SetIsRunning b) s = s\<lparr>isRunning := b\<rparr>"
| "apply_effect (ScheduleForward a) s = s\<lparr>timers := timers s @ [a]\<rparr>"
| "apply_effect (Delay ms) s = s"
| "apply_effect (SendTrx to amount from) s = s"
| "apply_effect (GetAccount a) s = s"
| "apply_effect (MultiSign i) s = s"
| "apply_effect SignTransaction s = s"
| "apply_effect SendRawTransaction s = s"

fun apply_effects :: "effect list \<Rightarrow> forwarder \<Rightarrow> forwarder" where
  "apply_effects [] s = s"
| "apply_effects (e # es) s = apply_effects es (apply_effect e s)"

text \<open>The state of a freshly mounted hook (lines 8-26).\<close>

definition initial :: forwarder where
  "initial = \<lparr>isRunning = False, receivingBalance = 0, lastBalance = None, logs = [],
     currentSteps = [],
     multisigStatus = \<lparr>isConfigured = False, threshold = 0, keyCount = 0,
        hasReceivingKey = False, hasApprovingKey = False\<rparr>,
     heartbeatCount = 0, intervalRef = None, timers = [], activeRuns = []\<rparr>"

section \<open>Balance query (updateReceivingBalance)\<close>

text \<open>
  The argument \<open>q\<close> is what \<open>tronWeb.trx.getBalance\<close> does when awaited. The result is the
  returned balance, or \<open>None\<close> for the source's \<open>null\<close>.
\<close>

definition updateReceivingBalance :: "connections \<Rightarrow> int resp \<Rightarrow> effect list \<times> int option" where
  "updateReceivingBalance conn q =
    (case tronWebRef conn of
       None \<Rightarrow> ([], None)
     | Some config \<Rightarrow>
        (case q of
           Returns balanceInSun \<Rightarrow> ([SetReceivingBalance balanceInSun], Some balanceInSun)
         | Throws msg \<Rightarrow>
            ([Log ERROR [Txt ''Failed to update receiving wallet balance''] [(''error'', [Txt msg])]],
             None)))"

section \<open>Multisig verification (verifyMultisigSetup)\<close>

text \<open>
  An account's \<open>active_permission\<close> list; a permission carries its threshold and the
  addresses of its keys. An account without the field is the empty list.
\<close>

record Permission =
  perm_threshold :: int
  perm_keys :: "string list"

text \<open>Lines 147-168: the status computed from the account information.\<close>

definition multisigStatusOf :: "ForwardingConfig \<Rightarrow> string \<Rightarrow> Permission list \<Rightarrow> MultisigStatus" where
  "multisigStatusOf config approving active_permission =
    (case active_permission of
       [] \<Rightarrow> \<lparr>isConfigured = False, threshold = 0, keyCount = 0,
               hasReceivingKey = False, hasApprovingKey = False\<rparr>
     | activePermission # _ \<Rightarrow>
         \<lparr>isConfigured = (perm_threshold activePermission \<ge> 2 \<and> length (perm_keys activePermission) \<ge> 2),
          threshold = perm_threshold activePermission,
          keyCount = length (perm_keys activePermission),
          hasReceivingKey = list_ex (\<lambda>key. key = receivingAddress config) (perm_keys activePermission),
          hasApprovingKey = list_ex (\<lambda>key. key = approving) (perm_keys activePermission)\<rparr>)"

text \<open>\<open>mark b\<close> stands for the check mark (\<open>True\<close>) or the cross (\<open>False\<close>) of a detail map.\<close>

definition mark :: "bool \<Rightarrow> pieces" where
  "mark b = [Txt (if b then ''yes'' else ''no'')]"

definition verifyMultisigSetup :: "connections \<Rightarrow> Permission list resp \<Rightarrow> effect list" where
  "verifyMultisigSetup conn accountInfo =
    (case tronWebRef conn of
       None \<Rightarrow> []
     | Some config \<Rightarrow>
        if approvingAddress conn = [] then []
        else (case accountInfo of
           Throws msg \<Rightarrow> [Log ERROR [Txt ''Failed to verify multisig setup''] [(''error'', [Txt msg])]]
         | Returns active_permission \<Rightarrow>
            (let st = multisigStatusOf config (approvingAddress conn) active_permission in
             [SetMultisigStatus st,
              if isConfigured st
              then Log SUCCESS [Txt ''2-of-2 multisig verification passed'']
                     [(''threshold'', [Num (threshold st)]), (''keyCount'', [Num (int (keyCount st))]),
                      (''receivingKey'', mark (hasReceivingKey st)),
                      (''approvingKey'', mark (hasApprovingKey st))]
              else Log WARNING [Txt ''Multisig not properly configured'']
                     [(''threshold'', [Num (threshold st)]), (''keyCount'', [Num (int (keyCount st))])]])))"

section \<open>Forwarding pipeline (forwardWithMultisig)\<close>

text \<open>
  What the collaborators answer during one attempt, in the order of the calls:
  \<open>getBalance\<close> at create (line 237), \<open>transactionBuilder.sendTrx\<close> (line 258, the id of the
  built transaction), \<open>getAccount\<close> (line 276), \<open>multiSign\<close> (line 290), \<open>signTransaction\<close>
  of the wallet hook (line 310), \<open>sendRawTransaction\<close> (line 353) and \<open>getBalance\<close> at
  confirm (line 371). A signed transaction is described by the length of its \<open>signature\<close>
  field, \<open>None\<close> when the field is absent; \<open>signTransaction\<close> returning nothing is
  \<open>Returns None\<close>.
\<close>

record signed_tx =
  signature :: "nat option"

record broadcast_result =
  accepted :: bool
  reject_message :: string
  txid :: string

record attempt_env =
  balance_query :: "int resp"
  sendTrx_result :: "string resp"
  getAccount_result :: "Permission list resp"
  multiSign_result :: "unit resp"
  signTransaction_result :: "signed_tx option resp"
  sendRaw_result :: "broadcast_result resp"
  confirm_query :: "int resp"

text \<open>
  How a call of \<open>forwardWithMultisig\<close> returns: at line 214 (\<open>NotConnected\<close>), at line 253
  (\<open>NoTransaction\<close>), at line 393 with the broadcast result (\<open>Broadcasted\<close>), or at line 416
  with \<open>null\<close> (\<open>RunFailed\<close>). The body of the \<open>try\<close> block either returns from the function
  or throws.
\<close>

datatype run_result = NotConnected | NoTransaction | Broadcasted | RunFailed

datatype outcome = Threw string | Returned run_result

definition emit :: "effect list \<Rightarrow> effect list \<times> 'a \<Rightarrow> effect list \<times> 'a" where
  "emit es r = (es @ fst r, snd r)"

text \<open>Step 7 (lines 366-393).\<close>

definition confirm_phase :: "connections \<Rightarrow> int \<Rightarrow> int \<Rightarrow> attempt_env \<Rightarrow> effect list \<times> outcome" where
  "confirm_phase conn currentBalance forwardAmount env =
    emit [UpdateStep ''confirm'' active None, Delay 5000]
     (case updateReceivingBalance conn (confirm_query env) of
        (es, Some balanceAfter) \<Rightarrow>
          (let actualCost = currentBalance - balanceAfter;
               transactionFee = actualCost - forwardAmount
           in (es @ [UpdateStep ''confirm'' completed (Some [Txt ''Transaction confirmed on network'']),
                     Log SUCCESS [Txt ''MULTISIG FORWARD COMPLETED SUCCESSFULLY!'']
                       [(''Amount Forwarded'', [Sun forwardAmount, Txt '' TRX'']),
                        (''Transaction Fee'', [Sun transactionFee, Txt '' TRX'']),
                        (''Balance After'', [Sun balanceAfter, Txt '' TRX''])],
                     SetLastBalance (Some balanceAfter)],
               Returned Broadcasted))
      | (es, None) \<Rightarrow> (es, Returned Broadcasted))"

text \<open>Step 6 (lines 345-364).\<close>

definition broadcast_phase :: "connections \<Rightarrow> int \<Rightarrow> int \<Rightarrow> nat \<Rightarrow> attempt_env \<Rightarrow> effect list \<times> outcome" where
  "broadcast_phase conn currentBalance forwardAmount len env =
    emit [UpdateStep ''broadcast'' active None,
          Log BROADCAST [Txt ''Broadcasting multisig transaction to TRON network...'']
            [(''Signature Count'', [Quot len 65])],
          SendRawTransaction]
     (case sendRaw_result env of
        Throws msg \<Rightarrow> ([], Threw msg)
      | Returns res \<Rightarrow>
          if \<not> accepted res
          then ([], Threw (''Broadcast failed: '' @
                  (if reject_message res = [] then ''Unknown error'' else reject_message res)))
          else emit [UpdateStep ''broadcast'' completed
                       (Some [Txt ''Transaction '', Txt (take 8 (txid res)), Txt ''... broadcasted'']),
                     Log BROADCAST [Txt ''Transaction broadcasted successfully''] []]
                 (confirm_phase conn currentBalance forwardAmount env))"

text \<open>
  Step 5 (lines 326-343). \<open>signatureCount\<close> is the JavaScript quotient
  \<open>fullySigned.signature.length / 65\<close>, a rational here: the double division is exact at
  the multiples of 65 and monotone, so comparing with 2 gives the same answer.
\<close>

definition signatureCount :: "nat option \<Rightarrow> rat" where
  "signatureCount sig = (case sig of None \<Rightarrow> 0 | Some len \<Rightarrow> of_nat len / 65)"

definition validate_phase :: "connections \<Rightarrow> int \<Rightarrow> int \<Rightarrow> nat option \<Rightarrow> attempt_env \<Rightarrow> effect list \<times> outcome" where
  "validate_phase conn currentBalance forwardAmount sig env =
    emit [UpdateStep ''validate'' active None]
     (let hasRequiredSignatures = (signatureCount sig \<ge> 2) in
      if \<not> hasRequiredSignatures
      then ([], Threw ''Transaction does not meet 2-of-2 multisig requirements'')
      else emit [UpdateStep ''validate'' completed
                   (Some [Quot (case sig of None \<Rightarrow> 0 | Some len \<Rightarrow> len) 65, Txt '' signatures validated'']),
                 Log SUCCESS [Txt ''DUAL SIGNATURE COMPLETE - TRANSACTION READY''] []]
             (broadcast_phase conn currentBalance forwardAmount
                (case sig of None \<Rightarrow> 0 | Some len \<Rightarrow> len) env))"

text \<open>Step 4 (lines 303-324).\<close>

definition sign2_phase :: "connections \<Rightarrow> int \<Rightarrow> int \<Rightarrow> attempt_env \<Rightarrow> effect list \<times> outcome" where
  "sign2_phase conn currentBalance forwardAmount env =
    emit [UpdateStep ''sign2'' active None,
          Log SIGNATURE [Txt ''Requesting second signature from TronLink...''] [],
          SignTransaction]
     (case signTransaction_result env of
        Throws msg \<Rightarrow> ([], Threw msg)
      | Returns None \<Rightarrow> ([], Threw ''TronLink signing was cancelled or failed'')
      | Returns (Some fullySigned) \<Rightarrow>
          if (case signature fullySigned of None \<Rightarrow> True | Some len \<Rightarrow> len < 130)
          then ([], Threw ''Invalid signature format - transaction may not be properly signed'')
          else emit [UpdateStep ''sign2'' completed (Some [Txt ''Signed with TronLink wallet'']),
                     Log SIGNATURE [Txt ''Second signature completed (TronLink wallet)''] []]
                 (validate_phase conn currentBalance forwardAmount (signature fullySigned) env))"

text \<open>
  Step 3 (lines 272-301). The key index is the position of the first key of the first
  active permission whose address is the receiving address, and 0 when there is none.
\<close>

fun indexOf :: "string \<Rightarrow> string list \<Rightarrow> nat option" where
  "indexOf a [] = None"
| "indexOf a (k # ks) = (if k = a then Some 0 else map_option Suc (indexOf a ks))"

definition receivingKeyIndexOf :: "ForwardingConfig \<Rightarrow> Permission list \<Rightarrow> nat" where
  "receivingKeyIndexOf config active_permission =
    (case active_permission of
       [] \<Rightarrow> 0
     | activePermission # _ \<Rightarrow>
        (case indexOf (receivingAddress config) (perm_keys activePermission) of
           None \<Rightarrow> 0
         | Some i \<Rightarrow> i))"

definition sign1_phase :: "connections \<Rightarrow> ForwardingConfig \<Rightarrow> int \<Rightarrow> int \<Rightarrow> attempt_env \<Rightarrow> effect list \<times> outcome" where
  "sign1_phase conn config currentBalance forwardAmount env =
    emit [UpdateStep ''sign1'' active None, GetAccount (receivingAddress config)]
     (case getAccount_result env of
        Throws msg \<Rightarrow> ([], Threw msg)
      | Returns active_permission \<Rightarrow>
         (let receivingKeyIndex = receivingKeyIndexOf config active_permission in
          emit [MultiSign receivingKeyIndex]
           (case multiSign_result env of
              Throws msg \<Rightarrow> ([], Threw msg)
            | Returns firstSigned \<Rightarrow>
               emit [UpdateStep ''sign1'' completed (Some [Txt ''Auto-signed with receiving wallet'']),
                     Log SIGNATURE [Txt ''First signature completed (receiving wallet)'']
                       [(''Key Index'', [Num (int receivingKeyIndex)])]]
                (sign2_phase conn currentBalance forwardAmount env))))"

text \<open>Lines 242-270: the forward amount, the insufficient-balance return, and step 2.\<close>

definition create_phase :: "connections \<Rightarrow> ForwardingConfig \<Rightarrow> int \<Rightarrow> int \<Rightarrow> attempt_env \<Rightarrow> effect list \<times> outcome" where
  "create_phase conn config receivedAmount currentBalance env =
    (let availableAmount = max 0 (currentBalance - feeReserve config);
         forwardAmount = min receivedAmount availableAmount
     in if forwardAmount \<le> 0
        then ([Log WARNING [Txt ''Insufficient balance after fee reserve'']
                 [(''Current Balance'', [Sun currentBalance, Txt '' TRX'']),
                  (''Available'', [Sun availableAmount, Txt '' TRX''])],
               UpdateStep ''detect'' error (Some [Txt ''Insufficient balance for forwarding''])],
              Returned NoTransaction)
        else emit [UpdateStep ''create'' active None,
                   SendTrx (destinationAddress config) forwardAmount (receivingAddress config)]
              (case sendTrx_result env of
                 Throws msg \<Rightarrow> ([], Threw msg)
               | Returns txID \<Rightarrow>
                  emit [UpdateStep ''create'' completed
                          (Some [Txt ''Transaction '', Txt (take 8 txID), Txt ''... created'']),
                        Log INFO [Txt ''Multisig transaction created'']
                          [(''Amount'', [Sun forwardAmount, Txt '' TRX''])]]
                   (sign1_phase conn config currentBalance forwardAmount env)))"

text \<open>
  The body of the \<open>try\<close> block (lines 224-393) for the attempt counter \<open>attempts\<close>.
  \<open>!currentBalance\<close> holds for \<open>null\<close> and for the number 0.
\<close>

definition attempt :: "connections \<Rightarrow> ForwardingConfig \<Rightarrow> int \<Rightarrow> nat \<Rightarrow> attempt_env \<Rightarrow> effect list \<times> outcome" where
  "attempt conn config receivedAmount attempts env =
    emit [Log INFO [Txt ''STARTING MULTISIG FORWARD PROCESS...'']
            [(''Amount to Forward'', [Sun receivedAmount, Txt '' TRX'']),
             (''Attempt Number'', [Num (int attempts + 1), Txt '' of '', Num (int maxRetries)])],
          UpdateStep ''detect'' completed (Some [Sun receivedAmount, Txt '' TRX received''])]
     (case updateReceivingBalance conn (balance_query env) of
        (es, None) \<Rightarrow> (es, Threw ''Failed to get current balance'')
      | (es, Some currentBalance) \<Rightarrow>
          if currentBalance = 0 then (es, Threw ''Failed to get current balance'')
          else emit es (create_phase conn config receivedAmount currentBalance env))"

text \<open>The \<open>catch\<close> block (lines 395-412) for the incremented counter.\<close>

definition catch_block :: "nat \<Rightarrow> string \<Rightarrow> effect list" where
  "catch_block attempts msg =
    [Log ERROR [Txt ''Multisig forward attempt '', Num (int attempts), Txt '' failed'']
       [(''error'', [Txt msg]), (''attempt'', [Num (int attempts)]),
        (''maxAttempts'', [Num (int maxRetries)])],
     FailActiveSteps msg]
    @ (if attempts < maxRetries
       then [Log INFO [Txt ''Retrying in '', Num (int (retryDelay div 1000)), Txt '' seconds...''] [],
             Delay retryDelay]
       else [])"

text \<open>
  The \<open>while\<close> loop (lines 222-413) and what follows it (lines 415-416). \<open>envs k\<close> is what
  the collaborators answer during the attempt made with counter \<open>k\<close>.
\<close>

function forward_loop :: "connections \<Rightarrow> ForwardingConfig \<Rightarrow> int \<Rightarrow> nat \<Rightarrow> (nat \<Rightarrow> attempt_env) \<Rightarrow> effect list \<times> run_result" where
  "forward_loop conn config receivedAmount attempts envs =
    (if attempts < maxRetries
     then (case attempt conn config receivedAmount attempts (envs attempts) of
             (es, Returned r) \<Rightarrow> (es, r)
           | (es, Threw msg) \<Rightarrow>
               emit (es @ catch_block (attempts + 1) msg)
                 (forward_loop conn config receivedAmount (attempts + 1) envs))
     else ([Log ERROR [Txt ''MULTISIG FORWARD FAILED after '', Num (int maxRetries), Txt '' attempts''] []],
           RunFailed))"
  by pat_completeness auto
termination
  by (relation "measure (\<lambda>(conn, config, receivedAmount, attempts, envs). maxRetries - attempts)") auto

declare forward_loop.simps [simp del]

text \<open>Whether line 212 lets the call through.\<close>

definition connected :: "connections \<Rightarrow> bool" where
  "connected conn \<longleftrightarrow>
     tronWebRef conn \<noteq> None \<and> isConnected conn \<and> tronLinkWeb conn \<and> approvingAddress conn \<noteq> []"

definition forwardWithMultisig :: "connections \<Rightarrow> int \<Rightarrow> (nat \<Rightarrow> attempt_env) \<Rightarrow> effect list \<times> run_result" where
  "forwardWithMultisig conn receivedAmount envs =
    (case tronWebRef conn of
       None \<Rightarrow> ([Log ERROR [Txt ''Missing required connections for multisig forwarding''] []], NotConnected)
     | Some config \<Rightarrow>
        if \<not> isConnected conn \<or> \<not> tronLinkWeb conn \<or> approvingAddress conn = []
        then ([Log ERROR [Txt ''Missing required connections for multisig forwarding''] []], NotConnected)
        else emit [SetCurrentSteps createForwardingSteps]
               (forward_loop conn config receivedAmount 0 envs))"

section \<open>Monitoring (monitorBalance, startMonitoring, stopMonitoring)\<close>

text \<open>
  \<open>lastBalance\<close> is a constant that \<open>useState\<close> binds anew in every render (line 10), and
  \<open>monitorBalance\<close> is a \<open>useCallback\<close> closure over that constant (its dependency list,
  line 476, names it). A call of \<open>setLastBalance\<close> asks for a later render; it does not
  change the constant that an existing closure holds. So the value that a call of
  \<open>monitorBalance\<close> compares with is an argument of the model, \<open>lastBal\<close>, apart from the
  state that \<open>SetLastBalance\<close> writes. \<open>heartbeatCountRef\<close> is a ref: the call reads and
  writes its current value, \<open>hb\<close>. \<open>q\<close> is what the balance query does; its failure is
  caught inside \<open>updateReceivingBalance\<close>, and nothing else in the \<open>try\<close> block of lines
  424-475 is taken to throw.
\<close>

definition monitorBalance :: "connections \<Rightarrow> int option \<Rightarrow> int resp \<Rightarrow> nat \<Rightarrow> effect list \<times> nat" where
  "monitorBalance conn lastBal q hb =
    (case tronWebRef conn of
       None \<Rightarrow> ([], hb)
     | Some config \<Rightarrow>
        (case updateReceivingBalance conn q of
           (es, None) \<Rightarrow> (es, hb)
         | (es, Some currentBalance) \<Rightarrow>
            (let beat = (if hb + 1 \<ge> 20
                         then [Log INFO [Txt ''Monitoring active - Balance: '', Sun currentBalance, Txt '' TRX''] []]
                         else []);
                 hb' = (if hb + 1 \<ge> 20 then 0 else hb + 1)
             in (case lastBal of
                   None \<Rightarrow>
                     (es @ beat @
                      [SetLastBalance (Some currentBalance),
                       Log INFO [Txt ''Initial balance set: '', Sun currentBalance, Txt '' TRX''] []],
                      hb')
                 | Some previous \<Rightarrow>
                     if currentBalance > previous
                     then (let receivedAmount = currentBalance - previous
                           in (es @ beat @
                               [Log DETECTION [Txt ''TRX PAYMENT DETECTED!'']
                                  [(''Previous Balance'', [Sun previous, Txt '' TRX'']),
                                   (''Current Balance'', [Sun currentBalance, Txt '' TRX'']),
                                   (''Received Amount'', [Sun receivedAmount, Txt '' TRX''])],
                                SetLastBalance (Some currentBalance),
                                ScheduleForward receivedAmount],
                               hb'))
                     else if currentBalance < previous
                     then (es @ beat @
                           [Log BALANCE [Txt ''Balance decreased'']
                              [(''Previous'', [Sun previous, Txt '' TRX'']),
                               (''Current'', [Sun currentBalance, Txt '' TRX'']),
                               (''Change'', [Sun (currentBalance - previous), Txt '' TRX''])],
                            SetLastBalance (Some currentBalance)],
                           hb')
                     else (es @ beat, hb')))))"

text \<open>A call of the closure that holds \<open>lastBal\<close>, run on the state of the hook.\<close>

definition invoke_monitor :: "connections \<Rightarrow> int option \<Rightarrow> int resp \<Rightarrow> forwarder \<Rightarrow> forwarder" where
  "invoke_monitor conn lastBal q s =
    (case monitorBalance conn lastBal q (heartbeatCount s) of
       (es, hb) \<Rightarrow> apply_effects es (s\<lparr>heartbeatCount := hb\<rparr>))"

text \<open>
  \<open>startMonitoring\<close> (lines 478-525), called from the render that shows the state \<open>s\<close>.
  The \<open>monitorBalance\<close> it calls at line 502 and hands to \<open>setInterval\<close> at line 511 is the
  closure of that render, which holds the rendered \<open>lastBalance s\<close>; the timer keeps this
  closure until it is cleared. The call of line 502 is not awaited: it issues its balance
  query and goes on, after the rest of \<open>startMonitoring\<close>, when the query \<open>q\<close> answers.
\<close>

definition startMonitoring :: "connections \<Rightarrow> int resp \<Rightarrow> forwarder \<Rightarrow> forwarder" where
  "startMonitoring conn q s =
    (case tronWebRef conn of
       None \<Rightarrow> apply_effects [Log ERROR [Txt ''Cannot start monitoring: TronWeb not initialized''] []] s
     | Some config \<Rightarrow>
        if \<not> isConnected conn \<or> approvingAddress conn = []
        then apply_effects [Log ERROR [Txt ''Cannot start monitoring: TronLink not connected''] []] s
        else if \<not> isConfigured (multisigStatus s)
        then apply_effects [Log ERROR [Txt ''Cannot start monitoring: Multisig not configured''] []] s
        else (let closure = lastBalance s;
                  s1 = apply_effects [SetLastBalance None] s;
                  s2 = s1\<lparr>heartbeatCount := 0\<rparr>;
                  s3 = s2\<lparr>intervalRef := Some closure\<rparr>;
                  s4 = apply_effects
                         [SetIsRunning True,
                          Log SUCCESS [Txt ''MULTISIG MONITORING STARTED'']
                            [(''Poll Interval'', [Quot (pollInterval config) 1000, Txt ''s''])]] s3
              in invoke_monitor conn closure q s4))"

text \<open>A tick of the timer calls the closure that \<open>setInterval\<close> was given.\<close>

definition tick :: "connections \<Rightarrow> int resp \<Rightarrow> forwarder \<Rightarrow> forwarder" where
  "tick conn q s =
    (case intervalRef s of
       None \<Rightarrow> s
     | Some closure \<Rightarrow> invoke_monitor conn closure q s)"

text \<open>\<open>stopMonitoring\<close> (lines 527-540).\<close>

definition stopMonitoring :: "forwarder \<Rightarrow> forwarder" where
  "stopMonitoring s =
    apply_effects
      [SetIsRunning False, SetCurrentSteps [],
       Log INFO [Txt ''MULTISIG MONITORING STOPPED''] []]
      (s\<lparr>intervalRef := None\<rparr>)"

text \<open>
  The timeout set at line 461 expires: \<open>forwardWithMultisig\<close> is called with the scheduled
  amount. Line 212 is the only test the call makes before it starts its attempts; a call
  that passes it is in flight until it returns.
\<close>

definition timer_fires :: "connections \<Rightarrow> forwarder \<Rightarrow> forwarder" where
  "timer_fires conn s =
    (case timers s of
       [] \<Rightarrow> s
     | receivedAmount # rest \<Rightarrow>
        if connected conn
        then s\<lparr>timers := rest, activeRuns := activeRuns s @ [receivedAmount]\<rparr>
        else apply_effects [Log ERROR [Txt ''Missing required connections for multisig forwarding''] []]
               (s\<lparr>timers := rest\<rparr>))"

text \<open>The \<open>i\<close>-th call in flight returns.\<close>

definition run_returns :: "nat \<Rightarrow> forwarder \<Rightarrow> forwarder" where
  "run_returns i s = s\<lparr>activeRuns := take i (activeRuns s) @ drop (Suc i) (activeRuns s)\<rparr>"

section \<open>Log entries of the retry policy and sample inputs\<close>

text \<open>
  The entries that the \<open>catch\<close> block and the end of the loop write, with the constants
  \<open>maxRetries = 3\<close> and \<open>retryDelay = 5000\<close> put in: the failure entry of attempt \<open>k\<close>
  (lines 397-401), the announcement and the wait before the next attempt (lines 409-410),
  and the entry written when the attempts are used up (line 415).
\<close>

definition failure_entry :: "nat \<Rightarrow> string \<Rightarrow> effect" where
  "failure_entry k msg =
     Log ERROR [Txt ''Multisig forward attempt '', Num (int k), Txt '' failed'']
       [(''error'', [Txt msg]), (''attempt'', [Num (int k)]), (''maxAttempts'', [Num 3])]"

definition retry_wait :: "effect list" where
  "retry_wait = [Log INFO [Txt ''Retrying in '', Num 5, Txt '' seconds...''] [], Delay 5000]"

definition exhausted_entry :: effect where
  "exhausted_entry = Log ERROR [Txt ''MULTISIG FORWARD FAILED after '', Num 3, Txt '' attempts''] []"

text \<open>The level of a log entry among the effects.\<close>

fun logged_level :: "effect \<Rightarrow> level option" where
  "logged_level (Log lv msg ds) = Some lv"
| "logged_level _ = None"

text \<open>
  Sample inputs: a configuration with a fee reserve of 5, a connected wallet, an account
  whose first active permission is 2-of-2 over the two keys, and collaborators that answer
  every call of an attempt, the balance query at create with \<open>b\<close>.
\<close>

definition cfg0 :: ForwardingConfig where
  "cfg0 = \<lparr>receivingAddress = ''R'', destinationAddress = ''D'', feeReserve = 5, pollInterval = 3000\<rparr>"

definition conn0 :: connections where
  "conn0 = \<lparr>tronWebRef = Some cfg0, isConnected = True, tronLinkWeb = True, approvingAddress = ''A''\<rparr>"

definition perm0 :: Permission where
  "perm0 = \<lparr>perm_threshold = 2, perm_keys = [''A'', ''R'']\<rparr>"

definition env_ok :: "int \<Rightarrow> attempt_env" where
  "env_ok b =
    \<lparr>balance_query = Returns b,
     sendTrx_result = Returns ''0f3c9a1e77'',
     getAccount_result = Returns [perm0],
     multiSign_result = Returns (),
     signTransaction_result = Returns (Some \<lparr>signature = Some 130\<rparr>),
     sendRaw_result = Returns \<lparr>accepted = True, reject_message = [], txid = ''0f3c9a1e77''\<rparr>,
     confirm_query = Returns (b - 51)\<rparr>"

text \<open>The same collaborators, with the broadcast rejected, or with a signature of 129.\<close>

definition env_rejected :: "int \<Rightarrow> attempt_env" where
  "env_rejected b = (env_ok b)\<lparr>sendRaw_result :=
      Returns \<lparr>accepted = False, reject_message = ''SIGERROR'', txid = []\<rparr>\<rparr>"

definition env_short :: "int \<Rightarrow> attempt_env" where
  "env_short b = (env_ok b)\<lparr>signTransaction_result := Returns (Some \<lparr>signature = Some 129\<rparr>)\<rparr>"

text \<open>
  The balance query at create gives no usable balance: it returns exactly 0, or it fails
  (and \<open>updateReceivingBalance\<close> returns \<open>null\<close>).
\<close>

fun no_balance :: "int resp \<Rightarrow> bool" where
  "no_balance (Returns b) = (b = 0)"
| "no_balance (Throws msg) = True"

text \<open>A log of 100 numbered entries.\<close>

definition entry :: "nat \<Rightarrow> LogEntry" where
  "entry n = \<lparr>level = INFO, message = [Num (int n)], details = []\<rparr>"

text \<open>The amounts for which an effect schedules a forwarding run.\<close>

fun scheduled_by :: "effect \<Rightarrow> int list" where
  "scheduled_by (ScheduleForward a) = [a]"
| "scheduled_by _ = []"

text \<open>
  A hook whose multisig status has been verified for the sample account, and a monitoring
  hook with a last balance of 150 and one forwarding run, for 50, in flight.
\<close>

definition verified :: forwarder where
  "verified = apply_effects (verifyMultisigSetup conn0 (Returns [perm0])) initial"

definition in_flight :: forwarder where
  "in_flight = initial\<lparr>isRunning := True, lastBalance := Some 150, activeRuns := [50]\<rparr>"

text \<open>The same collaborators, with the balance query of the confirm step failing.\<close>

definition env_confirm_fails :: "int \<Rightarrow> attempt_env" where
  "env_confirm_fails b = (env_ok b)\<lparr>confirm_query := Throws ''timeout''\<rparr>"

text \<open>
  \<open>Number.isSafeInteger\<close>: the integers on which the arithmetic of JavaScript numbers is
  exact. A balance read at create is safe for a configuration when it and what remains of
  it after the fee reserve are safe integers; a failed query reads no balance.
\<close>

definition safe_integer :: "int \<Rightarrow> bool" where
  "safe_integer n \<longleftrightarrow> - (2 ^ 53 - 1) \<le> n \<and> n \<le> 2 ^ 53 - 1"

fun safe_balance :: "ForwardingConfig \<Rightarrow> int resp \<Rightarrow> bool" where
  "safe_balance config (Returns b) = (safe_integer b \<and> safe_integer (b - feeReserve config))"
| "safe_balance config (Throws msg) = True"

section \<open>Theorems\<close>

lemmas pipeline_defs =
  attempt_def create_phase_def sign1_phase_def sign2_phase_def validate_phase_def
  broadcast_phase_def confirm_phase_def emit_def updateReceivingBalance_def
  signatureCount_def receivingKeyIndexOf_def Let_def

lemmas sample_defs = conn0_def cfg0_def perm0_def env_ok_def env_rejected_def env_short_def
  env_confirm_fails_def



subsection \<open>Multisig status\<close>

lemma verifyMultisigSetup_sets_status:
  "tronWebRef conn = Some config \<Longrightarrow> approvingAddress conn \<noteq> [] \<Longrightarrow>
   hd (verifyMultisigSetup conn (Returns ps))
     = SetMultisigStatus (multisigStatusOf config (approvingAddress conn) ps)"
  by (simp add: verifyMultisigSetup_def Let_def)

text \<open>
  C2, as the specification states it, fails: a permission of threshold 2 with two keys that
  are neither the receiving nor the approving key is reported as configured.
\<close>

theorem isConfigured_ignores_keys_counterexample:
  "\<not> (isConfigured (multisigStatusOf
          \<lparr>receivingAddress = ''R'', destinationAddress = ''D'', feeReserve = 500000, pollInterval = 3000\<rparr>
          ''A'' [\<lparr>perm_threshold = 2, perm_keys = [''X'', ''Y'']\<rparr>])
       \<longleftrightarrow>
        (threshold (multisigStatusOf
          \<lparr>receivingAddress = ''R'', destinationAddress = ''D'', feeReserve = 500000, pollInterval = 3000\<rparr>
          ''A'' [\<lparr>perm_threshold = 2, perm_keys = [''X'', ''Y'']\<rparr>]) \<ge> 2
         \<and> keyCount (multisigStatusOf
          \<lparr>receivingAddress = ''R'', destinationAddress = ''D'', feeReserve = 500000, pollInterval = 3000\<rparr>
          ''A'' [\<lparr>perm_threshold = 2, perm_keys = [''X'', ''Y'']\<rparr>]) \<ge> 2
         \<and> hasReceivingKey (multisigStatusOf
          \<lparr>receivingAddress = ''R'', destinationAddress = ''D'', feeReserve = 500000, pollInterval = 3000\<rparr>
          ''A'' [\<lparr>perm_threshold = 2, perm_keys = [''X'', ''Y'']\<rparr>])
         \<and> hasApprovingKey (multisigStatusOf
          \<lparr>receivingAddress = ''R'', destinationAddress = ''D'', feeReserve = 500000, pollInterval = 3000\<rparr>
          ''A'' [\<lparr>perm_threshold = 2, perm_keys = [''X'', ''Y'']\<rparr>])))"
  by (simp add: multisigStatusOf_def)

text \<open>
  C2, amended. For every account-permission query result, \<open>isConfigured\<close> is true if and
  only if the account has an active permission and the first one has a threshold \<open>\<ge> 2\<close> and
  at least 2 keys; \<open>threshold\<close> and \<open>keyCount\<close> are the threshold and the number of keys of
  that permission (0 when there is none), so \<open>isConfigured\<close> holds if and only if
  threshold \<open>\<ge> 2\<close> and keyCount \<open>\<ge> 2\<close>. The presence of the receiving key and of the
  approving key in that permission's key list is reported in \<open>hasReceivingKey\<close> and
  \<open>hasApprovingKey\<close> and plays no part in \<open>isConfigured\<close>. \<open>verifyMultisigSetup\<close> stores
  this status and logs success or a warning by \<open>isConfigured\<close> alone.
\<close>

theorem isConfigured_iff_threshold_and_keyCount:
  "(isConfigured (multisigStatusOf config approving ps)
      \<longleftrightarrow> ps \<noteq> [] \<and> perm_threshold (hd ps) \<ge> 2 \<and> length (perm_keys (hd ps)) \<ge> 2)
   \<and> threshold (multisigStatusOf config approving ps) = (if ps = [] then 0 else perm_threshold (hd ps))
   \<and> keyCount (multisigStatusOf config approving ps) = (if ps = [] then 0 else length (perm_keys (hd ps)))
   \<and> (isConfigured (multisigStatusOf config approving ps)
      \<longleftrightarrow> threshold (multisigStatusOf config approving ps) \<ge> 2
          \<and> keyCount (multisigStatusOf config approving ps) \<ge> 2)
   \<and> (hasReceivingKey (multisigStatusOf config approving ps)
      \<longleftrightarrow> ps \<noteq> [] \<and> receivingAddress config \<in> set (perm_keys (hd ps)))
   \<and> (hasApprovingKey (multisigStatusOf config approving ps)
      \<longleftrightarrow> ps \<noteq> [] \<and> approving \<in> set (perm_keys (hd ps)))
   \<and> (tronWebRef conn = Some config \<and> approvingAddress conn \<noteq> [] \<longrightarrow>
        verifyMultisigSetup conn (Returns ps) =
          [SetMultisigStatus (multisigStatusOf config (approvingAddress conn) ps),
           if ps \<noteq> [] \<and> perm_threshold (hd ps) \<ge> 2 \<and> length (perm_keys (hd ps)) \<ge> 2
           then Log SUCCESS [Txt ''2-of-2 multisig verification passed'']
                  [(''threshold'', [Num (perm_threshold (hd ps))]),
                   (''keyCount'', [Num (int (length (perm_keys (hd ps))))]),
                   (''receivingKey'', mark (receivingAddress config \<in> set (perm_keys (hd ps)))),
                   (''approvingKey'', mark (approvingAddress conn \<in> set (perm_keys (hd ps))))]
           else Log WARNING [Txt ''Multisig not properly configured'']
                  [(''threshold'', [Num (if ps = [] then 0 else perm_threshold (hd ps))]),
                   (''keyCount'', [Num (if ps = [] then 0 else int (length (perm_keys (hd ps))))])]])"
  by (cases ps) (auto simp: multisigStatusOf_def list_ex_iff verifyMultisigSetup_def Let_def)

theorem isConfigured_witness:
  "tronWebRef conn0 = Some cfg0 \<and> approvingAddress conn0 \<noteq> []
   \<and> isConfigured (multisigStatusOf cfg0 ''A'' [perm0])
   \<and> hd (verifyMultisigSetup conn0 (Returns [perm0])) = SetMultisigStatus (multisigStatusOf cfg0 ''A'' [perm0])
   \<and> \<not> isConfigured (multisigStatusOf cfg0 ''A'' [\<lparr>perm_threshold = 1, perm_keys = [''A'']\<rparr>])
   \<and> \<not> isConfigured (multisigStatusOf cfg0 ''A'' [\<lparr>perm_threshold = 1, perm_keys = [''A'', ''R'']\<rparr>])
   \<and> \<not> isConfigured (multisigStatusOf cfg0 ''A'' [])"
proof -
  have c: "tronWebRef conn0 = Some cfg0 \<and> approvingAddress conn0 \<noteq> []" by (simp add: conn0_def)
  note t1 = isConfigured_iff_threshold_and_keyCount [of cfg0 "''A''" "[perm0]" conn0]
  note t2 = isConfigured_iff_threshold_and_keyCount
     [of cfg0 "''A''" "[\<lparr>perm_threshold = 1, perm_keys = [''A'']\<rparr>]" conn0]
  note t3 = isConfigured_iff_threshold_and_keyCount
     [of cfg0 "''A''" "[\<lparr>perm_threshold = 1, perm_keys = [''A'', ''R'']\<rparr>]" conn0]
  note t4 = isConfigured_iff_threshold_and_keyCount [of cfg0 "''A''" "[]" conn0]
  from t1 have 1: "isConfigured (multisigStatusOf cfg0 ''A'' [perm0])" by (simp add: perm0_def)
  from t1 c have 2: "hd (verifyMultisigSetup conn0 (Returns [perm0])) = SetMultisigStatus (multisigStatusOf cfg0 ''A'' [perm0])"
    by (simp add: conn0_def)
  from t2 have 3: "\<not> isConfigured (multisigStatusOf cfg0 ''A'' [\<lparr>perm_threshold = 1, perm_keys = [''A'']\<rparr>])" by simp
  from t3 have 4: "\<not> isConfigured (multisigStatusOf cfg0 ''A'' [\<lparr>perm_threshold = 1, perm_keys = [''A'', ''R'']\<rparr>])" by simp
  from t4 have 5: "\<not> isConfigured (multisigStatusOf cfg0 ''A'' [])" by simp
  from c 1 2 3 4 5 show ?thesis by simp
qed

subsection \<open>Activity log\<close>

lemma addLog_length: "length (addLog lv msg ds prev) \<le> 100"
  by (simp add: addLog_def)

lemma addLog_shape:
  "addLog lv msg ds prev = \<lparr>level = lv, message = msg, details = ds\<rparr> # take 99 prev"
  by (simp add: addLog_def take_Cons')

lemma appends_length: "length prev \<le> 100 \<Longrightarrow> length (appends es prev) \<le> 100"
proof (induction es arbitrary: prev)
  case Nil
  then show ?case by simp
next
  case (Cons e es)
  obtain lv msg ds where e: "e = (lv, msg, ds)" by (cases e) auto
  show ?case unfolding e appends.simps
    by (rule Cons.IH) (rule addLog_length)
qed

text \<open>
  C8. After every append the log holds at most 100 entries, the appended entry first and
  the earlier entries after it in their earlier order; what is cut off is the tail of the
  earlier log from position 99 on, so a log that was full loses exactly its last, that is
  its oldest, entry. The log built by any sequence of appends never exceeds 100 entries.
\<close>

theorem addLog_capped_most_recent_first:
  "length (addLog lv msg ds prev) \<le> 100
   \<and> addLog lv msg ds prev = \<lparr>level = lv, message = msg, details = ds\<rparr> # take 99 prev
   \<and> addLog lv msg ds prev @ drop 99 prev = \<lparr>level = lv, message = msg, details = ds\<rparr> # prev
   \<and> (length prev = 100 \<longrightarrow> drop 99 prev = [last prev])
   \<and> length (appends es []) \<le> 100"
proof -
  have full: "drop 99 prev = [last prev]" if "length prev = 100"
  proof -
    from that have ne: "prev \<noteq> []" by auto
    have "take 99 prev @ drop 99 prev = prev" by simp
    moreover from that have "take 99 prev = butlast prev" by (simp add: butlast_conv_take)
    ultimately have "butlast prev @ drop 99 prev = butlast prev @ [last prev]"
      using ne by simp
    then show ?thesis by simp
  qed
  have "length (appends es []) \<le> 100" by (rule appends_length) simp
  then show ?thesis
    by (simp add: addLog_length addLog_shape full)
qed

theorem addLog_witness:
  "length (map entry [0..<100]) = 100
   \<and> length (addLog BALANCE [Txt ''Balance decreased''] [] (map entry [0..<100])) = 100
   \<and> addLog BALANCE [Txt ''Balance decreased''] [] (map entry [0..<100]) @ [entry 99]
        = \<lparr>level = BALANCE, message = [Txt ''Balance decreased''], details = []\<rparr> # map entry [0..<100]"
proof -
  let ?P = "map entry [0..<100]"
  let ?A = "addLog BALANCE [Txt ''Balance decreased''] [] ?P"
  have len: "length ?P = 100" by simp
  have l: "last ?P = entry 99" by (simp add: last_map)
  note t = addLog_capped_most_recent_first
    [of BALANCE "[Txt ''Balance decreased'']" "[]" ?P "[]"]
  from t have e: "?A @ drop 99 ?P
      = \<lparr>level = BALANCE, message = [Txt ''Balance decreased''], details = []\<rparr> # ?P"
    by blast
  from t len have d: "drop 99 ?P = [last ?P]" by blast
  from e have a: "?A @ [entry 99]
      = \<lparr>level = BALANCE, message = [Txt ''Balance decreased''], details = []\<rparr> # ?P"
    unfolding d l .
  from t have "?A = \<lparr>level = BALANCE, message = [Txt ''Balance decreased''], details = []\<rparr> # take 99 ?P"
    by blast
  then have "length ?A = Suc (length (take 99 ?P))" by simp
  then have n: "length ?A = 100" by simp
  from len n a show ?thesis by blast
qed

subsection \<open>Forwarding pipeline: where a transaction is built\<close>

lemma confirm_no_sendTrx: "SendTrx to a from \<notin> set (fst (confirm_phase conn cb fa env))"
  by (auto simp: confirm_phase_def emit_def updateReceivingBalance_def Let_def
      split: option.splits resp.splits prod.splits)

lemma broadcast_no_sendTrx: "SendTrx to a from \<notin> set (fst (broadcast_phase conn cb fa len env))"
  using confirm_no_sendTrx
  by (auto simp: broadcast_phase_def emit_def split: resp.splits)

lemma validate_no_sendTrx: "SendTrx to a from \<notin> set (fst (validate_phase conn cb fa sig env))"
  using broadcast_no_sendTrx
  by (auto simp: validate_phase_def emit_def Let_def)

lemma sign2_no_sendTrx: "SendTrx to a from \<notin> set (fst (sign2_phase conn cb fa env))"
  using validate_no_sendTrx
  by (auto simp: sign2_phase_def emit_def split: resp.splits option.splits)

lemma sign1_no_sendTrx: "SendTrx to a from \<notin> set (fst (sign1_phase conn config cb fa env))"
  using sign2_no_sendTrx
  by (auto simp: sign1_phase_def emit_def Let_def split: resp.splits)

lemma create_sendTrx:
  "SendTrx to a from \<in> set (fst (create_phase conn config receivedAmount b env)) \<longleftrightarrow>
     a = min receivedAmount (max 0 (b - feeReserve config)) \<and> 0 < a
     \<and> to = destinationAddress config \<and> from = receivingAddress config"
  using sign1_no_sendTrx
  by (auto simp: create_phase_def emit_def Let_def split: resp.splits)

lemma attempt_sendTrx:
  "SendTrx to a from \<in> set (fst (attempt conn config receivedAmount k env)) \<longleftrightarrow>
     tronWebRef conn \<noteq> None \<and>
     (\<exists>b. balance_query env = Returns b \<and> b \<noteq> 0
        \<and> a = min receivedAmount (max 0 (b - feeReserve config)) \<and> 0 < a
        \<and> to = destinationAddress config \<and> from = receivingAddress config)"
  by (auto simp: attempt_def emit_def updateReceivingBalance_def create_sendTrx
      split: option.splits resp.splits)

subsection \<open>Forwarding pipeline: the loop written out\<close>

lemma catch_block_retry:
  "catch_block 1 m = [failure_entry 1 m, FailActiveSteps m] @ retry_wait"
  "catch_block 2 m = [failure_entry 2 m, FailActiveSteps m] @ retry_wait"
  "catch_block 3 m = [failure_entry 3 m, FailActiveSteps m]"
  by (simp_all add: catch_block_def failure_entry_def retry_wait_def maxRetries_def retryDelay_def)

lemma forward_loop_exhausted:
  "forward_loop conn config amt 3 envs = ([exhausted_entry], RunFailed)"
  by (subst forward_loop.simps) (simp add: maxRetries_def exhausted_entry_def)

lemma forward_loop_unrolled:
  "forward_loop conn config amt 0 envs =
    (case attempt conn config amt 0 (envs 0) of
       (e0, Returned r) \<Rightarrow> (e0, r)
     | (e0, Threw m0) \<Rightarrow>
        (case attempt conn config amt 1 (envs 1) of
           (e1, Returned r) \<Rightarrow> (e0 @ [failure_entry 1 m0, FailActiveSteps m0] @ retry_wait @ e1, r)
         | (e1, Threw m1) \<Rightarrow>
            (case attempt conn config amt 2 (envs 2) of
               (e2, Returned r) \<Rightarrow>
                 (e0 @ [failure_entry 1 m0, FailActiveSteps m0] @ retry_wait @
                  e1 @ [failure_entry 2 m1, FailActiveSteps m1] @ retry_wait @ e2, r)
             | (e2, Threw m2) \<Rightarrow>
                 (e0 @ [failure_entry 1 m0, FailActiveSteps m0] @ retry_wait @
                  e1 @ [failure_entry 2 m1, FailActiveSteps m1] @ retry_wait @
                  e2 @ [failure_entry 3 m2, FailActiveSteps m2, exhausted_entry], RunFailed))))"
proof -
  have s0: "forward_loop conn config amt 0 envs =
     (case attempt conn config amt 0 (envs 0) of
        (es, Returned r) \<Rightarrow> (es, r)
      | (es, Threw msg) \<Rightarrow> emit (es @ catch_block 1 msg) (forward_loop conn config amt 1 envs))"
    by (subst forward_loop.simps) (simp add: maxRetries_def numeral_2_eq_2 numeral_3_eq_3)
  have s1: "forward_loop conn config amt 1 envs =
     (case attempt conn config amt 1 (envs 1) of
        (es, Returned r) \<Rightarrow> (es, r)
      | (es, Threw msg) \<Rightarrow> emit (es @ catch_block 2 msg) (forward_loop conn config amt 2 envs))"
    by (subst forward_loop.simps) (simp add: maxRetries_def numeral_2_eq_2 numeral_3_eq_3)
  have s2: "forward_loop conn config amt 2 envs =
     (case attempt conn config amt 2 (envs 2) of
        (es, Returned r) \<Rightarrow> (es, r)
      | (es, Threw msg) \<Rightarrow> emit (es @ catch_block 3 msg) (forward_loop conn config amt 3 envs))"
    by (subst forward_loop.simps) (simp add: maxRetries_def numeral_2_eq_2 numeral_3_eq_3)
  show ?thesis
    unfolding s0 s1 s2 forward_loop_exhausted catch_block_retry
    by (simp add: emit_def split: prod.splits outcome.splits)
qed

lemma forward_loop_members:
  "e \<in> set (fst (forward_loop conn config amt 0 envs)) \<Longrightarrow>
     e \<in> set (fst (attempt conn config amt 0 (envs 0)))
     \<or> e \<in> set (fst (attempt conn config amt 1 (envs 1)))
     \<or> e \<in> set (fst (attempt conn config amt 2 (envs 2)))
     \<or> (\<exists>k m. e = failure_entry k m) \<or> (\<exists>m. e = FailActiveSteps m)
     \<or> e \<in> set retry_wait \<or> e = exhausted_entry"
  unfolding forward_loop_unrolled
  by (auto split: prod.splits outcome.splits)

lemma forward_loop_sendTrx:
  assumes "SendTrx to a from \<in> set (fst (forward_loop conn config amt 0 envs))"
  shows "\<exists>k<3. SendTrx to a from \<in> set (fst (attempt conn config amt k (envs k)))"
proof -
  from forward_loop_members [OF assms]
  have "SendTrx to a from \<in> set (fst (attempt conn config amt 0 (envs 0)))
     \<or> SendTrx to a from \<in> set (fst (attempt conn config amt 1 (envs 1)))
     \<or> SendTrx to a from \<in> set (fst (attempt conn config amt 2 (envs 2)))"
    by (auto simp: failure_entry_def retry_wait_def exhausted_entry_def)
  then show ?thesis
  proof (elim disjE)
    assume "SendTrx to a from \<in> set (fst (attempt conn config amt 0 (envs 0)))"
    then show ?thesis by (intro exI [of _ 0]) simp
  next
    assume "SendTrx to a from \<in> set (fst (attempt conn config amt 1 (envs 1)))"
    then show ?thesis by (intro exI [of _ 1]) simp
  next
    assume "SendTrx to a from \<in> set (fst (attempt conn config amt 2 (envs 2)))"
    then show ?thesis by (intro exI [of _ 2]) simp
  qed
qed

subsection \<open>The forward amount\<close>

text \<open>
  C3. For a detected amount, a fee reserve and balances that are safe integers (where the
  arithmetic of the source is exact): a transaction is built in an attempt exactly when
  the balance read again at the start of that attempt is a non-zero \<open>b\<close> and
  \<open>min receivedAmount (max 0 (b - feeReserve))\<close> is positive, and then for exactly that
  amount (from the receiving to the destination address); so no transaction is built when
  the forward amount is \<open>\<le> 0\<close>. Every transaction built in a run is built in one of its
  at most \<open>maxRetries\<close> attempts, from the balance read in that attempt.
\<close>

theorem forward_amount_from_reread_balance:
  assumes "safe_integer receivedAmount" and "safe_integer (feeReserve config)"
  shows "(safe_balance config (balance_query env) \<longrightarrow>
      (SendTrx to a from \<in> set (fst (attempt conn config receivedAmount k env)) \<longleftrightarrow>
        tronWebRef conn \<noteq> None \<and>
        (\<exists>b. balance_query env = Returns b \<and> b \<noteq> 0
           \<and> a = min receivedAmount (max 0 (b - feeReserve config)) \<and> 0 < a
           \<and> to = destinationAddress config \<and> from = receivingAddress config)))
   \<and> (tronWebRef conn = Some config
        \<and> (\<forall>j<maxRetries. safe_balance config (balance_query (envs j)))
        \<and> SendTrx to a from \<in> set (fst (forwardWithMultisig conn receivedAmount envs)) \<longrightarrow>
      (\<exists>k b. k < maxRetries \<and> balance_query (envs k) = Returns b \<and> b \<noteq> 0
         \<and> a = min receivedAmount (max 0 (b - feeReserve config)) \<and> 0 < a
         \<and> to = destinationAddress config \<and> from = receivingAddress config))"
proof (intro conjI impI)
  show "SendTrx to a from \<in> set (fst (attempt conn config receivedAmount k env)) \<longleftrightarrow>
      tronWebRef conn \<noteq> None \<and>
      (\<exists>b. balance_query env = Returns b \<and> b \<noteq> 0
         \<and> a = min receivedAmount (max 0 (b - feeReserve config)) \<and> 0 < a
         \<and> to = destinationAddress config \<and> from = receivingAddress config)"
    by (rule attempt_sendTrx)
next
  assume h: "tronWebRef conn = Some config
        \<and> (\<forall>j<maxRetries. safe_balance config (balance_query (envs j)))
        \<and> SendTrx to a from \<in> set (fst (forwardWithMultisig conn receivedAmount envs))"
  then have c: "tronWebRef conn = Some config"
    and run: "SendTrx to a from \<in> set (fst (forwardWithMultisig conn receivedAmount envs))"
    by simp_all
  from run c have loop: "SendTrx to a from \<in> set (fst (forward_loop conn config receivedAmount 0 envs))"
    by (auto simp: forwardWithMultisig_def emit_def split: option.splits if_splits)
  from forward_loop_sendTrx [OF loop] obtain k where k: "k < 3"
    and at: "SendTrx to a from \<in> set (fst (attempt conn config receivedAmount k (envs k)))"
    by blast
  from at obtain b where "balance_query (envs k) = Returns b" "b \<noteq> 0"
    "a = min receivedAmount (max 0 (b - feeReserve config))" "0 < a"
    "to = destinationAddress config" "from = receivingAddress config"
    unfolding attempt_sendTrx by blast
  with k show "\<exists>k b. k < maxRetries \<and> balance_query (envs k) = Returns b \<and> b \<noteq> 0
         \<and> a = min receivedAmount (max 0 (b - feeReserve config)) \<and> 0 < a
         \<and> to = destinationAddress config \<and> from = receivingAddress config"
    by (auto simp: maxRetries_def)
qed

theorem forward_amount_witness:
  "safe_integer 50 \<and> safe_integer (feeReserve cfg0)
   \<and> tronWebRef conn0 = Some cfg0
   \<and> safe_balance cfg0 (balance_query (env_ok 150))
   \<and> SendTrx ''D'' 50 ''R'' \<in> set (fst (forwardWithMultisig conn0 50 (\<lambda>k. env_ok 150)))
   \<and> (\<exists>k b. k < maxRetries \<and> balance_query (env_ok 150) = Returns b \<and> b \<noteq> 0
         \<and> (50::int) = min 50 (max 0 (b - feeReserve cfg0)) \<and> (0::int) < 50
         \<and> ''D'' = destinationAddress cfg0 \<and> ''R'' = receivingAddress cfg0)
   \<and> safe_balance cfg0 (balance_query (env_ok 3))
   \<and> (\<forall>to a from. SendTrx to a from \<notin> set (fst (attempt conn0 cfg0 50 0 (env_ok 3))))"
proof -
  have s1: "safe_integer 50" and s2: "safe_integer (feeReserve cfg0)"
    by (simp_all add: safe_integer_def cfg0_def)
  have c: "tronWebRef conn0 = Some cfg0" by (simp add: conn0_def)
  have sb: "safe_balance cfg0 (balance_query (env_ok 150))"
    and sb3: "safe_balance cfg0 (balance_query (env_ok 3))"
    by (simp_all add: env_ok_def cfg0_def safe_integer_def)
  have h: "SendTrx ''D'' 50 ''R'' \<in> set (fst (forwardWithMultisig conn0 50 (\<lambda>k. env_ok 150)))"
    by (simp add: forwardWithMultisig_def forward_loop_unrolled pipeline_defs sample_defs)
  note t = forward_amount_from_reread_balance [OF s1 s2,
      where env = "env_ok 3" and conn = conn0 and k = 0 and envs = "\<lambda>k. env_ok 150"]
  from t c sb h have e: "\<exists>k b. k < maxRetries \<and> balance_query (env_ok 150) = Returns b \<and> b \<noteq> 0
         \<and> (50::int) = min 50 (max 0 (b - feeReserve cfg0)) \<and> (0::int) < 50
         \<and> ''D'' = destinationAddress cfg0 \<and> ''R'' = receivingAddress cfg0"
    by blast
  from t sb3 have n: "\<forall>to a from. SendTrx to a from \<notin> set (fst (attempt conn0 cfg0 50 0 (env_ok 3)))"
    by (auto simp: env_ok_def cfg0_def)
  from s1 s2 c sb sb3 h e n show ?thesis by simp
qed

subsection \<open>The insufficient-balance outcome\<close>

lemma forward_loop_step:
  "k < 3 \<Longrightarrow> forward_loop conn config amt k envs =
     (case attempt conn config amt k (envs k) of
        (es, Returned r) \<Rightarrow> (es, r)
      | (es, Threw msg) \<Rightarrow>
          emit (es @ catch_block (k + 1) msg) (forward_loop conn config amt (k + 1) envs))"
  by (subst forward_loop.simps) (simp add: maxRetries_def)

text \<open>
  C4, as the specification states it, fails: with a fee reserve of 5, a detected amount of
  50 and a balance of 3 read at create, the forward amount is 0, the run returns without a
  transaction, and its \<open>detect\<close> step is marked \<open>error\<close>.
\<close>

theorem insufficient_balance_marks_detect_error_counterexample:
  "min 50 (max 0 (3 - feeReserve cfg0)) \<le> (0::int)
   \<and> snd (forwardWithMultisig conn0 50 (\<lambda>k. env_ok 3)) = NoTransaction
   \<and> \<not> list_all (\<lambda>st. status st \<noteq> error)
        (currentSteps (apply_effects (fst (forwardWithMultisig conn0 50 (\<lambda>k. env_ok 3))) initial))"
  by (simp add: forwardWithMultisig_def forward_loop_unrolled pipeline_defs sample_defs
      initial_def createForwardingSteps_def updateStep_def)

text \<open>
  C4, amended. When the create phase of an attempt computes a forward amount \<open>\<le> 0\<close> (from a
  non-zero balance), the run ends there as a deliberate no-op outcome: a warning is logged,
  the \<open>detect\<close> step is marked \<open>error\<close> with the detail "Insufficient balance for
  forwarding", no transaction is built, no error entry is logged, and the run returns at
  once: it does not pass through the \<open>catch\<close> block, so it consumes no retry attempt and is
  not retried.
\<close>

theorem insufficient_balance_is_warning_without_retry:
  assumes "k < maxRetries" and "tronWebRef conn \<noteq> None"
    and "balance_query (envs k) = Returns b" and "b \<noteq> 0"
    and "min receivedAmount (max 0 (b - feeReserve config)) \<le> 0"
  shows "forward_loop conn config receivedAmount k envs =
    ([Log INFO [Txt ''STARTING MULTISIG FORWARD PROCESS...'']
        [(''Amount to Forward'', [Sun receivedAmount, Txt '' TRX'']),
         (''Attempt Number'', [Num (int k + 1), Txt '' of '', Num 3])],
      UpdateStep ''detect'' completed (Some [Sun receivedAmount, Txt '' TRX received'']),
      SetReceivingBalance b,
      Log WARNING [Txt ''Insufficient balance after fee reserve'']
        [(''Current Balance'', [Sun b, Txt '' TRX'']),
         (''Available'', [Sun (max 0 (b - feeReserve config)), Txt '' TRX''])],
      UpdateStep ''detect'' error (Some [Txt ''Insufficient balance for forwarding''])],
     NoTransaction)"
proof -
  from assms(1) have k3: "k < 3" by (simp add: maxRetries_def)
  from assms(2) obtain c where c: "tronWebRef conn = Some c" by auto
  have "attempt conn config receivedAmount k (envs k) =
    ([Log INFO [Txt ''STARTING MULTISIG FORWARD PROCESS...'']
        [(''Amount to Forward'', [Sun receivedAmount, Txt '' TRX'']),
         (''Attempt Number'', [Num (int k + 1), Txt '' of '', Num 3])],
      UpdateStep ''detect'' completed (Some [Sun receivedAmount, Txt '' TRX received'']),
      SetReceivingBalance b,
      Log WARNING [Txt ''Insufficient balance after fee reserve'']
        [(''Current Balance'', [Sun b, Txt '' TRX'']),
         (''Available'', [Sun (max 0 (b - feeReserve config)), Txt '' TRX''])],
      UpdateStep ''detect'' error (Some [Txt ''Insufficient balance for forwarding''])],
     Returned NoTransaction)"
    using assms(3-5) c
    by (simp add: attempt_def create_phase_def emit_def updateReceivingBalance_def Let_def maxRetries_def)
  then show ?thesis
    by (simp add: forward_loop_step [OF k3])
qed

theorem insufficient_balance_witness:
  "forward_loop conn0 cfg0 50 0 (\<lambda>k. env_ok 3) =
    ([Log INFO [Txt ''STARTING MULTISIG FORWARD PROCESS...'']
        [(''Amount to Forward'', [Sun 50, Txt '' TRX'']),
         (''Attempt Number'', [Num 1, Txt '' of '', Num 3])],
      UpdateStep ''detect'' completed (Some [Sun 50, Txt '' TRX received'']),
      SetReceivingBalance 3,
      Log WARNING [Txt ''Insufficient balance after fee reserve'']
        [(''Current Balance'', [Sun 3, Txt '' TRX'']),
         (''Available'', [Sun 0, Txt '' TRX''])],
      UpdateStep ''detect'' error (Some [Txt ''Insufficient balance for forwarding''])],
     NoTransaction)"
  using insufficient_balance_is_warning_without_retry [of 0 conn0 "\<lambda>k. env_ok 3" 3 50 cfg0]
  by (simp add: sample_defs maxRetries_def)

subsection \<open>Signature validation\<close>

lemma confirm_no_broadcast: "SendRawTransaction \<notin> set (fst (confirm_phase conn cb fa env))"
  by (auto simp: confirm_phase_def emit_def updateReceivingBalance_def Let_def
      split: option.splits resp.splits prod.splits)

lemma broadcast_broadcasts: "SendRawTransaction \<in> set (fst (broadcast_phase conn cb fa len env))"
  by (simp add: broadcast_phase_def emit_def)

lemma signatureCount_threshold: "signatureCount sig \<ge> 2 \<longleftrightarrow> (\<exists>len. sig = Some len \<and> len \<ge> 130)"
  by (cases sig) (auto simp: signatureCount_def)

lemma validate_broadcasts:
  "SendRawTransaction \<in> set (fst (validate_phase conn cb fa sig env)) \<longleftrightarrow> signatureCount sig \<ge> 2"
  using broadcast_broadcasts
  by (auto simp: validate_phase_def emit_def Let_def)

lemma sign2_broadcasts:
  "SendRawTransaction \<in> set (fst (sign2_phase conn cb fa env)) \<longleftrightarrow>
     (\<exists>tx. signTransaction_result env = Returns (Some tx) \<and> signatureCount (signature tx) \<ge> 2)"
  by (cases "signTransaction_result env")
     (auto simp: sign2_phase_def emit_def validate_broadcasts signatureCount_threshold
       split: option.splits)

text \<open>
  C9. The signature count is the length of the signature payload divided by 65. It is below
  2 exactly when the payload is shorter than 130. The validate step throws when the count is
  below 2 and goes on to broadcast exactly when it is at least 2; an attempt that has
  obtained a signed transaction from the external signer fails before any broadcast when
  the count is below 2 (the check of line 316 throws for the same payloads, while \<open>sign2\<close>
  is active) and broadcasts when it is at least 2.
\<close>

theorem signature_count_threshold:
  "signatureCount (Some len) = of_nat len / 65
   \<and> (signatureCount (Some len) < 2 \<longleftrightarrow> len < 130)
   \<and> (SendRawTransaction \<in> set (fst (validate_phase conn cb fa sig env)) \<longleftrightarrow> signatureCount sig \<ge> 2)
   \<and> (signatureCount sig < 2 \<longrightarrow>
        validate_phase conn cb fa sig env =
          ([UpdateStep ''validate'' active None],
           Threw ''Transaction does not meet 2-of-2 multisig requirements''))
   \<and> (signTransaction_result env = Returns (Some tx) \<longrightarrow>
        (signatureCount (signature tx) < 2 \<longrightarrow>
           (\<exists>msg. snd (sign2_phase conn cb fa env) = Threw msg)
           \<and> SendRawTransaction \<notin> set (fst (sign2_phase conn cb fa env)))
        \<and> (signatureCount (signature tx) \<ge> 2 \<longrightarrow>
           SendRawTransaction \<in> set (fst (sign2_phase conn cb fa env))))"
proof (intro conjI impI)
  show "signatureCount (Some len) = of_nat len / 65" by (simp add: signatureCount_def)
  show "signatureCount (Some len) < 2 \<longleftrightarrow> len < 130" by (auto simp: signatureCount_def)
  show "SendRawTransaction \<in> set (fst (validate_phase conn cb fa sig env)) \<longleftrightarrow> signatureCount sig \<ge> 2"
    by (rule validate_broadcasts)
next
  assume "signatureCount sig < 2"
  then show "validate_phase conn cb fa sig env =
          ([UpdateStep ''validate'' active None],
           Threw ''Transaction does not meet 2-of-2 multisig requirements'')"
    by (simp add: validate_phase_def emit_def Let_def)
next
  assume r: "signTransaction_result env = Returns (Some tx)" and lt: "signatureCount (signature tx) < 2"
  from lt have short: "case signature tx of None \<Rightarrow> True | Some len \<Rightarrow> len < 130"
    by (cases "signature tx") (auto simp: signatureCount_def)
  with r show "\<exists>msg. snd (sign2_phase conn cb fa env) = Threw msg"
    by (simp add: sign2_phase_def emit_def)
  from r lt show "SendRawTransaction \<notin> set (fst (sign2_phase conn cb fa env))"
    by (simp add: sign2_broadcasts)
next
  assume "signTransaction_result env = Returns (Some tx)" and "signatureCount (signature tx) \<ge> 2"
  then show "SendRawTransaction \<in> set (fst (sign2_phase conn cb fa env))"
    by (auto simp: sign2_broadcasts)
qed

theorem signature_count_witness:
  "signTransaction_result (env_ok 150) = Returns (Some \<lparr>signature = Some 130\<rparr>)
   \<and> signatureCount (Some 130) = 2
   \<and> SendRawTransaction \<in> set (fst (sign2_phase conn0 150 50 (env_ok 150)))
   \<and> signTransaction_result (env_short 150) = Returns (Some \<lparr>signature = Some 129\<rparr>)
   \<and> signatureCount (Some 129) < 2
   \<and> (\<exists>msg. snd (sign2_phase conn0 150 50 (env_short 150)) = Threw msg)
   \<and> SendRawTransaction \<notin> set (fst (sign2_phase conn0 150 50 (env_short 150)))
   \<and> validate_phase conn0 150 50 (Some 129) (env_short 150) =
        ([UpdateStep ''validate'' active None],
         Threw ''Transaction does not meet 2-of-2 multisig requirements'')"
proof -
  have ok: "signTransaction_result (env_ok 150) = Returns (Some \<lparr>signature = Some 130\<rparr>)"
    by (simp add: env_ok_def)
  have short: "signTransaction_result (env_short 150) = Returns (Some \<lparr>signature = Some 129\<rparr>)"
    by (simp add: env_short_def env_ok_def)
  have c130: "signatureCount (Some 130) = 2" and c129: "signatureCount (Some 129) < 2"
    by (simp_all add: signatureCount_def)
  note t1 = signature_count_threshold
    [where len = 130 and conn = conn0 and cb = 150 and fa = 50 and sig = "Some 130"
       and env = "env_ok 150" and tx = "\<lparr>signature = Some 130\<rparr>"]
  note t2 = signature_count_threshold
    [where len = 129 and conn = conn0 and cb = 150 and fa = 50 and sig = "Some 129"
       and env = "env_short 150" and tx = "\<lparr>signature = Some 129\<rparr>"]
  from t1 ok c130 have b: "SendRawTransaction \<in> set (fst (sign2_phase conn0 150 50 (env_ok 150)))"
    by simp
  from t2 short c129 have n: "(\<exists>msg. snd (sign2_phase conn0 150 50 (env_short 150)) = Threw msg)
     \<and> SendRawTransaction \<notin> set (fst (sign2_phase conn0 150 50 (env_short 150)))"
    by simp
  from t2 c129 have v: "validate_phase conn0 150 50 (Some 129) (env_short 150) =
        ([UpdateStep ''validate'' active None],
         Threw ''Transaction does not meet 2-of-2 multisig requirements'')"
    by simp
  from ok short c130 c129 b n v show ?thesis by simp
qed

subsection \<open>A balance of zero at create\<close>

lemma attempt_no_balance:
  "no_balance (balance_query env) \<Longrightarrow>
   attempt conn config amt k env =
     ([Log INFO [Txt ''STARTING MULTISIG FORWARD PROCESS...'']
         [(''Amount to Forward'', [Sun amt, Txt '' TRX'']),
          (''Attempt Number'', [Num (int k + 1), Txt '' of '', Num 3])],
       UpdateStep ''detect'' completed (Some [Sun amt, Txt '' TRX received''])]
      @ fst (updateReceivingBalance conn (balance_query env)),
      Threw ''Failed to get current balance'')"
  by (cases "balance_query env")
     (auto simp: attempt_def emit_def updateReceivingBalance_def maxRetries_def split: option.splits)

lemma updateReceivingBalance_no_warning:
  "e \<in> set (fst (updateReceivingBalance conn q)) \<Longrightarrow> logged_level e \<noteq> Some WARNING"
  by (auto simp: updateReceivingBalance_def split: option.splits resp.splits)

text \<open>
  C10. If the balance read at the start of an attempt is exactly 0, or the query fails, the
  attempt throws "Failed to get current balance" before any forward amount is computed; the
  loop goes through its \<open>catch\<close> block and on to the next counter, so the failure consumes
  one of the three attempts. When this happens in all three attempts the run ends with the
  final error entry and returns \<open>null\<close>; no warning is logged and no transaction is built.
\<close>

theorem zero_balance_is_attempt_failure:
  "(no_balance (balance_query env) \<longrightarrow>
      attempt conn config amt k env =
       ([Log INFO [Txt ''STARTING MULTISIG FORWARD PROCESS...'']
           [(''Amount to Forward'', [Sun amt, Txt '' TRX'']),
            (''Attempt Number'', [Num (int k + 1), Txt '' of '', Num 3])],
         UpdateStep ''detect'' completed (Some [Sun amt, Txt '' TRX received''])]
        @ fst (updateReceivingBalance conn (balance_query env)),
        Threw ''Failed to get current balance''))
   \<and> (k < maxRetries \<and> no_balance (balance_query (envs k)) \<longrightarrow>
      forward_loop conn config amt k envs =
        emit (fst (attempt conn config amt k (envs k))
              @ catch_block (k + 1) ''Failed to get current balance'')
          (forward_loop conn config amt (k + 1) envs))
   \<and> (no_balance (balance_query (envs 0)) \<and> no_balance (balance_query (envs 1))
        \<and> no_balance (balance_query (envs 2)) \<longrightarrow>
      snd (forward_loop conn config amt 0 envs) = RunFailed
      \<and> last (fst (forward_loop conn config amt 0 envs)) = exhausted_entry
      \<and> (\<forall>e \<in> set (fst (forward_loop conn config amt 0 envs)).
            logged_level e \<noteq> Some WARNING \<and> (\<forall>to a from. e \<noteq> SendTrx to a from)))"
proof (intro conjI impI)
  assume "no_balance (balance_query env)"
  then show "attempt conn config amt k env =
       ([Log INFO [Txt ''STARTING MULTISIG FORWARD PROCESS...'']
           [(''Amount to Forward'', [Sun amt, Txt '' TRX'']),
            (''Attempt Number'', [Num (int k + 1), Txt '' of '', Num 3])],
         UpdateStep ''detect'' completed (Some [Sun amt, Txt '' TRX received''])]
        @ fst (updateReceivingBalance conn (balance_query env)),
        Threw ''Failed to get current balance'')"
    by (rule attempt_no_balance)
next
  assume "k < maxRetries \<and> no_balance (balance_query (envs k))"
  then have k3: "k < 3" and nb: "no_balance (balance_query (envs k))"
    by (simp_all add: maxRetries_def)
  show "forward_loop conn config amt k envs =
        emit (fst (attempt conn config amt k (envs k))
              @ catch_block (k + 1) ''Failed to get current balance'')
          (forward_loop conn config amt (k + 1) envs)"
    by (simp add: forward_loop_step [OF k3] attempt_no_balance [OF nb])
next
  assume all: "no_balance (balance_query (envs 0)) \<and> no_balance (balance_query (envs 1))
        \<and> no_balance (balance_query (envs 2))"
  note a0 = attempt_no_balance [of "envs 0" conn config amt 0]
  note a1 = attempt_no_balance [of "envs (Suc 0)" conn config amt "Suc 0"]
  note a2 = attempt_no_balance [of "envs 2" conn config amt 2]
  from all show "snd (forward_loop conn config amt 0 envs) = RunFailed"
    by (simp add: forward_loop_unrolled a0 a1 a2)
  from all show "last (fst (forward_loop conn config amt 0 envs)) = exhausted_entry"
    by (simp add: forward_loop_unrolled a0 a1 a2)
  from all show "\<forall>e \<in> set (fst (forward_loop conn config amt 0 envs)).
            logged_level e \<noteq> Some WARNING \<and> (\<forall>to a from. e \<noteq> SendTrx to a from)"
    using updateReceivingBalance_no_warning [of _ conn]
    by (auto simp: forward_loop_unrolled a0 a1 a2 failure_entry_def retry_wait_def exhausted_entry_def
        updateReceivingBalance_def split: option.splits resp.splits)
qed

theorem zero_balance_witness:
  "no_balance (balance_query (env_ok 0))
   \<and> snd (attempt conn0 cfg0 50 0 (env_ok 0)) = Threw ''Failed to get current balance''
   \<and> snd (forward_loop conn0 cfg0 50 0 (\<lambda>k. env_ok 0)) = RunFailed
   \<and> last (fst (forward_loop conn0 cfg0 50 0 (\<lambda>k. env_ok 0))) = exhausted_entry
   \<and> list_all (\<lambda>e. logged_level e \<noteq> Some WARNING) (fst (forward_loop conn0 cfg0 50 0 (\<lambda>k. env_ok 0)))"
proof -
  have nb: "no_balance (balance_query (env_ok 0))" by (simp add: env_ok_def)
  note t = zero_balance_is_attempt_failure [of "env_ok 0" conn0 cfg0 50 0 "\<lambda>k. env_ok 0"]
  from t nb have 1: "snd (attempt conn0 cfg0 50 0 (env_ok 0)) = Threw ''Failed to get current balance''"
    by simp
  from t nb have 2: "snd (forward_loop conn0 cfg0 50 0 (\<lambda>k. env_ok 0)) = RunFailed"
    and 3: "last (fst (forward_loop conn0 cfg0 50 0 (\<lambda>k. env_ok 0))) = exhausted_entry"
    and 4: "\<forall>e \<in> set (fst (forward_loop conn0 cfg0 50 0 (\<lambda>k. env_ok 0))). logged_level e \<noteq> Some WARNING"
    by blast+
  from nb 1 2 3 4 show ?thesis by (simp add: list_all_iff)
qed

subsection \<open>The retry policy\<close>




















subsection \<open>Monitoring: what a call of monitorBalance schedules\<close>

lemma timers_apply_effect: "timers (apply_effect e s) = timers s @ scheduled_by e"
  by (cases e) simp_all

lemma timers_apply_effects: "timers (apply_effects es s) = timers s @ concat (map scheduled_by es)"
  by (induction es arbitrary: s) (simp_all add: timers_apply_effect)

lemma activeRuns_apply_effect: "activeRuns (apply_effect e s) = activeRuns s"
  by (cases e) simp_all

lemma activeRuns_apply_effects: "activeRuns (apply_effects es s) = activeRuns s"
  by (induction es arbitrary: s) (simp_all add: activeRuns_apply_effect)

lemma monitorBalance_increase:
  assumes "tronWebRef conn \<noteq> None" and "previous < b"
  shows "\<exists>pre. fst (monitorBalance conn (Some previous) (Returns b) hb) =
           pre @ [SetLastBalance (Some b), ScheduleForward (b - previous)]
         \<and> concat (map scheduled_by pre) = []"
  using assms
  by (auto simp: monitorBalance_def updateReceivingBalance_def Let_def)

lemma monitorBalance_initial:
  "concat (map scheduled_by (fst (monitorBalance conn None q hb))) = []"
  by (auto simp: monitorBalance_def updateReceivingBalance_def Let_def split: option.splits resp.splits)

lemma monitorBalance_first_observation:
  "tronWebRef conn \<noteq> None \<Longrightarrow>
   \<exists>pre. fst (monitorBalance conn None (Returns b) hb) =
      pre @ [SetLastBalance (Some b),
             Log INFO [Txt ''Initial balance set: '', Sun b, Txt '' TRX''] []]"
  by (auto simp: monitorBalance_def updateReceivingBalance_def Let_def)

lemma first_start_never_forwards:
  "lastBalance s = None \<Longrightarrow> timers (startMonitoring conn q s) = timers s"
  using monitorBalance_initial [of conn q 0]
  by (cases "monitorBalance conn None q 0")
     (auto simp: startMonitoring_def invoke_monitor_def timers_apply_effects Let_def
       split: option.splits)

text \<open>
  While the timer runs with the closure of a first start, which holds no last balance,
  every tick is treated as the initial observation.
\<close>

lemma first_session_ticks_never_forward:
  "intervalRef s = Some None \<Longrightarrow> timers (tick conn q s) = timers s"
  using monitorBalance_initial [of conn q "heartbeatCount s"]
  by (cases "monitorBalance conn None q (heartbeatCount s)")
     (simp add: tick_def invoke_monitor_def timers_apply_effects)

subsection \<open>One run at a time\<close>

text \<open>
  C1, as the specification states it, fails: a call of \<open>monitorBalance\<close> that compares with a
  last balance of 150 and reads 200 while a run is in flight schedules a second run, and
  when its timeout expires two runs are in flight.
\<close>

theorem second_run_while_first_in_flight_counterexample:
  "activeRuns in_flight = [50]
   \<and> timers (invoke_monitor conn0 (Some 150) (Returns 200) in_flight) = [50]
   \<and> activeRuns (timer_fires conn0 (invoke_monitor conn0 (Some 150) (Returns 200) in_flight)) = [50, 50]"
  by (simp add: in_flight_def initial_def invoke_monitor_def monitorBalance_def
      updateReceivingBalance_def timer_fires_def connected_def conn0_def Let_def)

text \<open>
  C1, amended. Every observation that \<open>monitorBalance\<close> classifies as an increase schedules
  a forwarding run for the difference, whether or not earlier runs are still in flight, and
  leaves those runs as they are; when the timeout expires the run starts beside them, if
  the connections are there. No run-in-progress flag is kept and no deposit is deferred.
\<close>

theorem increase_schedules_run_whatever_is_in_flight:
  assumes "tronWebRef conn \<noteq> None" and "previous < b"
  shows "timers (invoke_monitor conn (Some previous) (Returns b) s) = timers s @ [b - previous]
         \<and> activeRuns (invoke_monitor conn (Some previous) (Returns b) s) = activeRuns s
         \<and> (connected conn \<longrightarrow>
              activeRuns (timer_fires conn (invoke_monitor conn (Some previous) (Returns b) s))
                = activeRuns s @ [hd (timers s @ [b - previous])])"
proof -
  from monitorBalance_increase [OF assms, of "heartbeatCount s"]
  obtain pre where es: "fst (monitorBalance conn (Some previous) (Returns b) (heartbeatCount s)) =
           pre @ [SetLastBalance (Some b), ScheduleForward (b - previous)]"
    and pre: "concat (map scheduled_by pre) = []" by blast
  have t: "timers (invoke_monitor conn (Some previous) (Returns b) s) = timers s @ [b - previous]"
    using es pre
    by (cases "monitorBalance conn (Some previous) (Returns b) (heartbeatCount s)")
       (simp add: invoke_monitor_def timers_apply_effects)
  have a: "activeRuns (invoke_monitor conn (Some previous) (Returns b) s) = activeRuns s"
    by (cases "monitorBalance conn (Some previous) (Returns b) (heartbeatCount s)")
       (simp add: invoke_monitor_def activeRuns_apply_effects)
  have f: "activeRuns (timer_fires conn (invoke_monitor conn (Some previous) (Returns b) s))
                = activeRuns s @ [hd (timers s @ [b - previous])]" if "connected conn"
    using that t a by (cases "timers s") (simp_all add: timer_fires_def)
  from t a f show ?thesis by blast
qed

theorem increase_schedules_run_witness:
  "tronWebRef conn0 \<noteq> None \<and> (150::int) < 200 \<and> connected conn0
   \<and> timers (invoke_monitor conn0 (Some 150) (Returns 200) in_flight) = timers in_flight @ [50]
   \<and> activeRuns (timer_fires conn0 (invoke_monitor conn0 (Some 150) (Returns 200) in_flight))
        = activeRuns in_flight @ [50]"
proof -
  have c: "tronWebRef conn0 \<noteq> None" and k: "connected conn0"
    by (simp_all add: conn0_def connected_def)
  have t: "timers in_flight = []" by (simp add: in_flight_def initial_def)
  note r = increase_schedules_run_whatever_is_in_flight [of conn0 150 200 in_flight, OF c]
  from r c k t show ?thesis by simp
qed

text \<open>An execution that leads from the mounted hook to two runs in flight.\<close>

lemma two_runs_in_flight_reachable:
  "activeRuns (timer_fires conn0 (tick conn0 (Returns 170) (timer_fires conn0
      (startMonitoring conn0 (Returns 150)
        (stopMonitoring (startMonitoring conn0 (Returns 100) verified)))))) = [50, 70]"
  by (simp add: verified_def verifyMultisigSetup_def multisigStatusOf_def startMonitoring_def
      stopMonitoring_def tick_def timer_fires_def connected_def invoke_monitor_def
      monitorBalance_def updateReceivingBalance_def initial_def sample_defs Let_def)

subsection \<open>The first observation and the restart\<close>

text \<open>
  C6, evaluated. A first start from the mounted hook treats its observation as initial
  (\<open>first_start_never_forwards\<close>). After a stop, the hook shows the last balance 100; the
  restart calls \<open>setLastBalance(null)\<close>, but the \<open>monitorBalance\<close> it calls and registers is
  the closure that holds 100, so the observation 150 made by the restart is classified as
  an increase and a forwarding run for 50 is scheduled.
\<close>

theorem restart_compares_with_old_balance:
  "timers (startMonitoring conn0 (Returns 100) verified) = []
   \<and> lastBalance (stopMonitoring (startMonitoring conn0 (Returns 100) verified)) = Some 100
   \<and> timers (startMonitoring conn0 (Returns 150)
        (stopMonitoring (startMonitoring conn0 (Returns 100) verified))) = [50]"
  by (simp add: verified_def verifyMultisigSetup_def multisigStatusOf_def startMonitoring_def
      stopMonitoring_def invoke_monitor_def monitorBalance_def updateReceivingBalance_def
      initial_def sample_defs Let_def)

text \<open>The run that the restart schedules is started when its timeout expires.\<close>

theorem restart_run_is_started:
  "activeRuns (timer_fires conn0 (startMonitoring conn0 (Returns 150)
      (stopMonitoring (startMonitoring conn0 (Returns 100) verified)))) = [50]"
proof -
  let ?s = "startMonitoring conn0 (Returns 150)
      (stopMonitoring (startMonitoring conn0 (Returns 100) verified))"
  from restart_compares_with_old_balance have t: "timers ?s = [50]" by blast
  have a: "activeRuns ?s = []"
    by (simp add: verified_def verifyMultisigSetup_def multisigStatusOf_def startMonitoring_def
        stopMonitoring_def invoke_monitor_def monitorBalance_def updateReceivingBalance_def
        initial_def sample_defs Let_def)
  from t a show ?thesis
    by (simp add: timer_fires_def connected_def conn0_def)
qed

subsection \<open>The last balance and a second deposit\<close>

text \<open>
  C7, evaluated. On an increase \<open>setLastBalance\<close> is called just before the run is scheduled
  (\<open>monitorBalance_increase\<close>), and the state holds the new balance, 150. The timer keeps
  calling the closure that holds 100: when a second deposit of 20 raises the balance to 170
  while the first run is in flight, the tick schedules a run for 70, which counts the first
  deposit of 50 again.
\<close>

theorem second_deposit_counts_first_again:
  "lastBalance (timer_fires conn0 (startMonitoring conn0 (Returns 150)
      (stopMonitoring (startMonitoring conn0 (Returns 100) verified)))) = Some 150
   \<and> activeRuns (timer_fires conn0 (startMonitoring conn0 (Returns 150)
      (stopMonitoring (startMonitoring conn0 (Returns 100) verified)))) = [50]
   \<and> timers (tick conn0 (Returns 170) (timer_fires conn0 (startMonitoring conn0 (Returns 150)
      (stopMonitoring (startMonitoring conn0 (Returns 100) verified))))) = [70]"
  by (simp add: verified_def verifyMultisigSetup_def multisigStatusOf_def startMonitoring_def
      stopMonitoring_def tick_def timer_fires_def connected_def invoke_monitor_def
      monitorBalance_def updateReceivingBalance_def initial_def sample_defs Let_def)

text \<open>The two runs together forward 120 for deposits of 70.\<close>

theorem second_deposit_total:
  "sum_list (activeRuns (timer_fires conn0 (startMonitoring conn0 (Returns 150)
        (stopMonitoring (startMonitoring conn0 (Returns 100) verified))))
      @ timers (tick conn0 (Returns 170) (timer_fires conn0 (startMonitoring conn0 (Returns 150)
        (stopMonitoring (startMonitoring conn0 (Returns 100) verified)))))) = 120
   \<and> (170::int) - 100 = 70"
  using second_deposit_counts_first_again by simp

end
